theory Spec2Isabelle
  imports Main "HOL-Library.Word"
begin

unbundle bit_operations_syntax

section \<open>Allocator intercepts (runtime/Native/OS/Linux/Intercepts.cpp)\<close>

text \<open>
  \<^verbatim>\<open>addr_t\<close> is declared in \<^verbatim>\<open>runtime/Native/Intrinsics.h\<close>; the sentinels are
  initialised from \<^verbatim>\<open>~0ULL\<close>, so it is taken as the 64-bit address type here.
\<close>

type_synonym addr_t = "64 word"

definition kBadAddr :: addr_t where
  "kBadAddr = NOT 0"

definition kReallocInternalPtr :: addr_t where
  "kReallocInternalPtr = NOT 0 - 1"

definition kReallocTooBig :: addr_t where
  "kReallocTooBig = NOT 0 - 2"

definition kReallocInvalidPtr :: addr_t where
  "kReallocInvalidPtr = NOT 0 - 3"

definition kReallocFreedPtr :: addr_t where
  "kReallocFreedPtr = NOT 0 - 4"

definition kMallocTooBig :: addr_t where
  "kMallocTooBig = NOT 0 - 1"

text \<open>
  The tracked allocator is the group of \<^verbatim>\<open>extern "C"\<close> functions declared at the top of
  the file (\<^verbatim>\<open>malloc_intercept\<close>, \<^verbatim>\<open>free_intercept\<close>, \<^verbatim>\<open>calloc_intercept\<close>,
  \<^verbatim>\<open>realloc_intercept\<close>); their bodies live in the host. They are parameters of the
  model. Every intercept calls the allocator at most once, so what a call returns is a
  function of its arguments for the \<^verbatim>\<open>Memory\<close> the intercept was entered with; the calls
  an intercept makes are recorded in order, which is what the allocator gets to see.
\<close>

record allocator =
  malloc_intercept :: "addr_t \<Rightarrow> addr_t"
  free_intercept :: "addr_t \<Rightarrow> bool"
  calloc_intercept :: "addr_t \<Rightarrow> addr_t"
  realloc_intercept :: "addr_t \<Rightarrow> addr_t \<Rightarrow> addr_t"

datatype alloc_call =
    CallMalloc addr_t
  | CallFree addr_t
  | CallCalloc addr_t
  | CallRealloc addr_t addr_t

text \<open>
  How an intercept ends: \<^verbatim>\<open>return intercept.SetReturn(memory, state, v)\<close> hands \<open>v\<close> to the
  translated caller; \<^verbatim>\<open>return memory\<close> sets no return value and leaves the call to the real
  host routine; \<^verbatim>\<open>klee_abort()\<close> ends the simulated process.
\<close>

datatype ending = SetReturn addr_t | ReturnMemory | Abort

type_synonym intercepted = "alloc_call list \<times> ending"

text \<open>The argument of each intercept is what \<^verbatim>\<open>TryGetArgs\<close> delivered, \<open>None\<close> when it failed.\<close>

definition Intercept_malloc :: "allocator \<Rightarrow> addr_t option \<Rightarrow> intercepted" where
  "Intercept_malloc A args =
     (case args of
        None \<Rightarrow> ([], SetReturn 0)
      | Some alloc_size \<Rightarrow>
          if alloc_size = 0 then ([], SetReturn 0)
          else
            let ptr = malloc_intercept A alloc_size in
            ([CallMalloc alloc_size],
             if ptr = kBadAddr then ReturnMemory
             else if ptr = kMallocTooBig then ReturnMemory
             else SetReturn ptr))"

definition Intercept_free :: "allocator \<Rightarrow> addr_t option \<Rightarrow> intercepted" where
  "Intercept_free A args =
     (case args of
        None \<Rightarrow> ([], SetReturn 0)
      | Some address \<Rightarrow>
          ([CallFree address],
           if \<not> free_intercept A address then ReturnMemory else SetReturn 0))"

definition Intercept_calloc :: "allocator \<Rightarrow> (addr_t \<times> addr_t) option \<Rightarrow> intercepted" where
  "Intercept_calloc A args =
     (case args of
        None \<Rightarrow> ([], SetReturn 0)
      | Some (num, sz) \<Rightarrow>
          let alloc_size = num * sz in
          if alloc_size = 0 then ([], SetReturn 0)
          else
            let ptr = calloc_intercept A alloc_size in
            ([CallCalloc alloc_size],
             if ptr = kBadAddr then ReturnMemory
             else if ptr = kMallocTooBig then ReturnMemory
             else SetReturn ptr))"

definition Intercept_realloc :: "allocator \<Rightarrow> (addr_t \<times> addr_t) option \<Rightarrow> intercepted" where
  "Intercept_realloc A args =
     (case args of
        None \<Rightarrow> ([], SetReturn 0)
      | Some (ptr, alloc_size) \<Rightarrow>
          let (call, new_ptr) =
                (if ptr = 0 then (CallMalloc alloc_size, malloc_intercept A alloc_size)
                 else (CallRealloc ptr alloc_size, realloc_intercept A ptr alloc_size))
          in
          ([call],
           if new_ptr = kBadAddr then ReturnMemory
           else if kReallocInternalPtr = new_ptr then Abort
           else if kReallocTooBig = new_ptr then Abort
           else if kReallocInvalidPtr = new_ptr then Abort
           else if kReallocFreedPtr = new_ptr then Abort
           else SetReturn new_ptr))"

definition Intercept_memalign :: "allocator \<Rightarrow> (addr_t \<times> addr_t) option \<Rightarrow> intercepted" where
  "Intercept_memalign A args =
     (case args of
        None \<Rightarrow> ([], SetReturn 0)
      | Some (alignment, sz) \<Rightarrow>
          let ptr = malloc_intercept A sz in
          ([CallMalloc sz], if ptr = kBadAddr then ReturnMemory else SetReturn ptr))"

text \<open>
  An example allocator for evaluating the intercepts: a heap of one block of at most
  \<open>0x100\<close> bytes at \<open>0x1000\<close>; \<open>0x2000\<close> is a block that was freed, \<open>0x1008\<close> points inside
  the live block, any other pointer is untracked. Resizing the live block to nothing
  releases it and yields the null pointer.
\<close>

definition example_allocator :: allocator where
  "example_allocator =
     \<lparr> malloc_intercept = (\<lambda>sz. if sz \<le> 0x100 then 0x1000 else kMallocTooBig),
       free_intercept = (\<lambda>p. p = 0x1000),
       calloc_intercept = (\<lambda>sz. if sz \<le> 0x100 then 0x1000 else kMallocTooBig),
       realloc_intercept = (\<lambda>p sz.
          if p = 0x2000 then kReallocFreedPtr
          else if p = 0x1008 then kReallocInternalPtr
          else if p \<noteq> 0x1000 then kReallocInvalidPtr
          else if sz = 0 then 0
          else if sz \<le> 0x100 then 0x1000 else kReallocTooBig) \<rparr>"

text \<open>An allocator that declines every request, sending the caller to the host routines.\<close>

definition declining_allocator :: allocator where
  "declining_allocator =
     \<lparr> malloc_intercept = (\<lambda>sz. kBadAddr),
       free_intercept = (\<lambda>p. False),
       calloc_intercept = (\<lambda>sz. kBadAddr),
       realloc_intercept = (\<lambda>p sz. kBadAddr) \<rparr>"

section \<open>Trace discovery and rehydration (lib/Core/PreLifter.cpp)\<close>

text \<open>
  The bodies of \<^verbatim>\<open>RecursiveDescentPass\<close> and \<^verbatim>\<open>LinearSweepPass\<close> are one comment each, so
  the functions return at once. The work list and the trace map are passed by reference;
  the model returns them.
\<close>

type_synonym work_item = "64 word \<times> bool"

definition RecursiveDescentPass ::
  "'r \<Rightarrow> work_item list \<Rightarrow> (64 word \<rightharpoonup> 'f) \<Rightarrow> work_item list \<times> (64 word \<rightharpoonup> 'f)" where
  "RecursiveDescentPass range_map decoder_work_list new_lifted_traces =
     (decoder_work_list, new_lifted_traces)"

definition LinearSweepPass ::
  "'r \<Rightarrow> work_item list \<Rightarrow> (64 word \<rightharpoonup> 'f) \<Rightarrow> work_item list \<times> (64 word \<rightharpoonup> 'f)" where
  "LinearSweepPass range_map decoder_work_list new_lifted_traces =
     (decoder_work_list, new_lifted_traces)"

record Worker =
  traces :: "64 word list"

datatype severity = INFO | ERROR

text \<open>The part of a \<^verbatim>\<open>PreLifter\<close> that \<^verbatim>\<open>decodeAndLiftMappings\<close> touches, and the log.\<close>

record PreLifter =
  workers :: "Worker list"
  glog :: "(severity \<times> string) list"

text \<open>
  The trace-list file as \<^verbatim>\<open>decodeAndLiftMappings\<close> meets it: \<^verbatim>\<open>remill::FileExists\<close> says
  no; or the file exists and the stream does not open; or it opens, and the extractions
  yield the label and then the addresses up to the first token that is not one.
\<close>

datatype trace_list_file = Missing | Unreadable | Readable string "64 word list"

text \<open>
  The \<^verbatim>\<open>while (trace_file_stream >> std::hex >> trace_address)\<close> loop, with
  \<^verbatim>\<open>AddressSpace::IsSameMappedRange\<close> as a parameter. It returns the batch in progress and
  the workers made so far.
\<close>

fun batch_loop ::
  "(64 word \<Rightarrow> 64 word \<Rightarrow> bool) \<Rightarrow> 64 word list \<Rightarrow> 64 word \<Rightarrow> 64 word list \<Rightarrow> Worker list
     \<Rightarrow> 64 word list \<times> Worker list" where
  "batch_loop IsSameMappedRange [] prev_base trace_batch ws = (trace_batch, ws)"
| "batch_loop IsSameMappedRange (trace_address # rest) prev_base trace_batch ws =
     (if \<not> IsSameMappedRange trace_address prev_base
      then batch_loop IsSameMappedRange rest trace_address [trace_address]
             (if trace_batch \<noteq> [] then ws @ [\<lparr>traces = trace_batch\<rparr>] else ws)
      else batch_loop IsSameMappedRange rest prev_base (trace_batch @ [trace_address]) ws)"

definition decodeAndLiftMappings ::
  "(64 word \<Rightarrow> 64 word \<Rightarrow> bool) \<Rightarrow> string \<Rightarrow> trace_list_file \<Rightarrow> PreLifter \<Rightarrow> PreLifter" where
  "decodeAndLiftMappings IsSameMappedRange trace_list_path trace_file pl =
     (case trace_file of
        Missing \<Rightarrow> pl
      | Unreadable \<Rightarrow>
          pl\<lparr>glog := glog pl @
            [(INFO, ''grabbing traces from the trace list file in the workspace''),
             (ERROR, ''cannot read the trace list file at '' @ trace_list_path @
                     '' , falling back to recursive descent and linear sweep'')]\<rparr>
      | Readable trace_heads_label addresses \<Rightarrow>
          (let (trace_batch, ws) = batch_loop IsSameMappedRange addresses 0 [] (workers pl)
           in pl\<lparr>workers := (if trace_batch \<noteq> [] then ws @ [\<lparr>traces = trace_batch\<rparr>] else ws),
                 glog := glog pl @
                   [(INFO, ''grabbing traces from the trace list file in the workspace'')]\<rparr>))"

text \<open>The addresses a trace-list file contributes: none unless it was read.\<close>

definition file_addresses :: "trace_list_file \<Rightarrow> 64 word list" where
  "file_addresses trace_file = (case trace_file of Readable l as \<Rightarrow> as | _ \<Rightarrow> [])"

text \<open>
  Rehydration, the \<^verbatim>\<open>readdir\<close> loop of \<^verbatim>\<open>PreLifter::preLift\<close>. A \<^verbatim>\<open>MappedRange\<close> is what
  \<^verbatim>\<open>AddressSpace::FindRange\<close> returns; the loop uses its \<^verbatim>\<open>Name()\<close>.
\<close>

record MappedRange =
  BaseAddress :: "64 word"
  LimitAddress :: "64 word"
  Name :: string

text \<open>
  \<^verbatim>\<open>addr_stream >> std::hex >> map_label\<close>: the standard library's extraction of an
  unsigned 64-bit number in base 16, into a variable declared without an initialiser. The
  extraction skips leading white space. When nothing is left after that, it fails before
  it stores anything, and \<^verbatim>\<open>map_label\<close> is then read uninitialised: that is \<open>None\<close>.
  Otherwise it accepts a plus sign and a \<^verbatim>\<open>0x\<close> prefix and reads hexadecimal digits; with no
  digit the value stored is 0, with too many it is the largest value.
\<close>

definition hex_digit :: "char \<Rightarrow> nat option" where
  "hex_digit c =
     map_of
       [(CHR ''0'', 0), (CHR ''1'', 1), (CHR ''2'', 2), (CHR ''3'', 3), (CHR ''4'', 4),
        (CHR ''5'', 5), (CHR ''6'', 6), (CHR ''7'', 7), (CHR ''8'', 8), (CHR ''9'', 9),
        (CHR ''a'', 10), (CHR ''b'', 11), (CHR ''c'', 12), (CHR ''d'', 13), (CHR ''e'', 14),
        (CHR ''f'', 15), (CHR ''A'', 10), (CHR ''B'', 11), (CHR ''C'', 12), (CHR ''D'', 13),
        (CHR ''E'', 14), (CHR ''F'', 15)] c"

definition is_space :: "char \<Rightarrow> bool" where
  "is_space c = (c \<in> set [CHR '' '', CHR 0x09, CHR 0x0A, CHR 0x0B, CHR 0x0C, CHR 0x0D])"

fun strip_plus :: "string \<Rightarrow> string" where
  "strip_plus (a # rest) = (if a = CHR ''+'' then rest else a # rest)"
| "strip_plus [] = []"

fun strip_0x :: "string \<Rightarrow> string" where
  "strip_0x (a # b # c # rest) =
     (if a = CHR ''0'' \<and> (b = CHR ''x'' \<or> b = CHR ''X'') \<and> hex_digit c \<noteq> None
      then c # rest else a # b # c # rest)"
| "strip_0x s = s"

definition hex_value :: "string \<Rightarrow> nat" where
  "hex_value s =
     foldl (\<lambda>acc c. 16 * acc + the (hex_digit c)) 0 (takeWhile (\<lambda>c. hex_digit c \<noteq> None) s)"

definition extract_hex :: "string \<Rightarrow> 64 word option" where
  "extract_hex s =
     (case dropWhile is_space s of
        [] \<Rightarrow> None
      | c # cs \<Rightarrow>
          let v = hex_value (strip_0x (strip_plus (c # cs)))
          in Some (if v < 2 ^ 64 then of_nat v else - 1))"

text \<open>\<^verbatim>\<open>name.substr(0, name.find("-"))\<close>: the whole name when it has no dash.\<close>

definition substr_to_dash :: "string \<Rightarrow> string" where
  "substr_to_dash name = takeWhile (\<lambda>c. c \<noteq> CHR ''-'') name"

definition page_name :: "(64 word \<Rightarrow> MappedRange) \<Rightarrow> string \<Rightarrow> string option" where
  "page_name FindRange d_name =
     (let name = substr_to_dash d_name
      in case extract_hex name of
           None \<Rightarrow> None
         | Some map_label \<Rightarrow> Some (Name (FindRange map_label)))"

text \<open>
  The loop over the directory listing, in the order \<^verbatim>\<open>readdir\<close> gives the entries.
  \<^verbatim>\<open>remill::LoadModuleFromFile\<close> is a parameter: what it yields for a path. The scan has
  no defined result, \<open>None\<close>, when it reads \<^verbatim>\<open>map_label\<close> uninitialised.
\<close>

fun rehydrate ::
  "(64 word \<Rightarrow> MappedRange) \<Rightarrow> (string \<Rightarrow> 'm) \<Rightarrow> string \<Rightarrow> string list
     \<Rightarrow> (string \<rightharpoonup> 'm) \<Rightarrow> (string \<rightharpoonup> 'm) option" where
  "rehydrate FindRange LoadModuleFromFile path [] aot_traces = Some aot_traces"
| "rehydrate FindRange LoadModuleFromFile path (d_name # rest) aot_traces =
     (if d_name = ''.'' \<or> d_name = ''..''
      then rehydrate FindRange LoadModuleFromFile path rest aot_traces
      else
        case page_name FindRange d_name of
          None \<Rightarrow> None
        | Some page \<Rightarrow>
            rehydrate FindRange LoadModuleFromFile path rest
              (aot_traces(page \<mapsto> LoadModuleFromFile (path @ ''/'' @ d_name))))"

text \<open>
  The name \<^verbatim>\<open>LiftMapping\<close> gives the file of a batch, under the cache directory:
  \<^verbatim>\<open>"0x" << std::hex << start << std::dec << "-0x" << std::hex << end\<close>, the first and the
  last trace address of the batch in lower-case hexadecimal digits without leading zeros.
\<close>

definition hex_char :: "nat \<Rightarrow> char" where
  "hex_char d = ''0123456789abcdef'' ! d"

function to_hex :: "nat \<Rightarrow> string" where
  "to_hex n = (if n < 16 then [hex_char n] else to_hex (n div 16) @ [hex_char (n mod 16)])"
  by pat_completeness auto
termination
  by (relation "measure id") auto

declare to_hex.simps [simp del]

definition cache_file_name :: "64 word \<Rightarrow> 64 word \<Rightarrow> string" where
  "cache_file_name start stop = ''0x'' @ to_hex (unat start) @ ''-0x'' @ to_hex (unat stop)"

text \<open>An address space of two regions, and a loader that yields the path it was given.\<close>

definition example_FindRange :: "64 word \<Rightarrow> MappedRange" where
  "example_FindRange a =
     (if a < 0x500000
      then \<lparr>BaseAddress = 0x400000, LimitAddress = 0x500000, Name = ''text''\<rparr>
      else \<lparr>BaseAddress = 0x600000, LimitAddress = 0x700000, Name = ''data''\<rparr>)"

definition example_IsSameMappedRange :: "64 word \<Rightarrow> 64 word \<Rightarrow> bool" where
  "example_IsSameMappedRange a b = (Name (example_FindRange a) = Name (example_FindRange b))"

definition example_listing :: "string list" where
  "example_listing = [''.'', ''..'', ''0x400000-0x400fff'', ''0x600000-0x600010'',
                      ''0x401000-0x401abc'']"

section \<open>Special function handlers (lib/Core/SpecialFunctionHandler.cpp)\<close>

text \<open>
  Expressions are used, not designed, by the handlers. What the handlers see of them: a
  constant with its value and width; a read of a symbolic array, with the array's name;
  any other node, with its kids.
\<close>

datatype Expr =
    ConstantExpr "64 word" nat
  | ReadExpr string nat
  | OtherExpr nat "Expr list"

text \<open>\<^verbatim>\<open>ConstantExpr::create(v, w)\<close> keeps the low \<open>w\<close> bits of \<open>v\<close>.\<close>

definition create :: "64 word \<Rightarrow> nat \<Rightarrow> Expr" where
  "create v w = ConstantExpr (take_bit w v) w"

definition createPointer :: "64 word \<Rightarrow> Expr" where
  "createPointer v = create v 64"

text \<open>
  \<^verbatim>\<open>llvm::dyn_cast<ConstantExpr>(e)->getZExtValue()\<close>: the cast of an expression that is
  not a constant is null, and the call through it does not return; that is \<open>None\<close>.
\<close>

fun getZExtValue :: "Expr \<Rightarrow> 64 word option" where
  "getZExtValue (ConstantExpr v w) = Some v"
| "getZExtValue e = None"

fun getKid0 :: "Expr \<Rightarrow> Expr option" where
  "getKid0 (OtherExpr k (e # es)) = Some e"
| "getKid0 e = None"

text \<open>
  \<^verbatim>\<open>executor.bindLocal(target, state, v)\<close> stores \<open>v\<close> in the destination cell of the
  calling instruction: the result of the call is what the cell holds when the handler
  returns, so a second binding replaces the first.
\<close>

record Cell =
  local :: "Expr option"

definition bindLocal :: "Expr \<Rightarrow> 'a Cell_scheme \<Rightarrow> 'a Cell_scheme" where
  "bindLocal v st = st\<lparr>local := Some v\<rparr>"

subsection \<open>File status and directory entries\<close>

text \<open>
  The host's \<^verbatim>\<open>struct stat\<close> and \<^verbatim>\<open>struct dirent\<close> with the field widths of 64-bit Linux.
  \<^verbatim>\<open>static_cast<uint64_t>\<close> extends the 32-bit fields and keeps the bits of the others.
\<close>

record stat =
  st_dev :: "64 word"
  st_ino :: "64 word"
  st_nlink :: "64 word"
  st_mode :: "32 word"
  st_uid :: "32 word"
  st_gid :: "32 word"
  st_rdev :: "64 word"
  st_size :: "64 word"
  st_blksize :: "64 word"
  st_blocks :: "64 word"

record dirent =
  d_ino :: "64 word"
  d_off :: "64 word"
  d_reclen :: "16 word"
  d_type :: "8 word"
  d_name :: string

text \<open>
  The handler object's two caches, \<^verbatim>\<open>errno\<close>, and the destination cell. The host calls
  \<^verbatim>\<open>fstat\<close>, \<^verbatim>\<open>stat\<close> and \<^verbatim>\<open>readdir\<close> are parameters: \<open>None\<close> is the failing return
  (\<open>-1\<close>, or the null entry), \<open>Some\<close> carries the structure the call filled.
\<close>

record Handler = Cell +
  errno :: int
  fstat_vector :: "64 word list"
  dirent_entry :: dirent

definition EFAULT :: int where
  "EFAULT = 14"

definition set_up_fstat_struct :: "stat \<Rightarrow> Handler \<Rightarrow> Handler" where
  "set_up_fstat_struct info h =
     h\<lparr>fstat_vector :=
        [st_dev info, st_ino info, ucast (st_mode info), st_nlink info,
         ucast (st_uid info), ucast (st_gid info), st_rdev info,
         st_size info, st_blksize info, st_blocks info]\<rparr>"

text \<open>\<^verbatim>\<open>fstat_vector[index_uint]\<close> past the end of the vector is undefined: \<open>None\<close>.\<close>

definition handle_get_fstat_index :: "Expr \<Rightarrow> Handler \<Rightarrow> Handler option" where
  "handle_get_fstat_index fstat_index_val h =
     (case getZExtValue fstat_index_val of
        None \<Rightarrow> None
      | Some index_uint \<Rightarrow>
          if unat index_uint < length (fstat_vector h)
          then Some (bindLocal (create (fstat_vector h ! unat index_uint) 64) h)
          else None)"

text \<open>
  The \<^verbatim>\<open>switch\<close> of \<^verbatim>\<open>handle_get_dirent_index\<close> has four cases and no \<^verbatim>\<open>break\<close>: control
  enters at the case of the index and runs every assignment to \<^verbatim>\<open>field\<close> from there on.
  \<^verbatim>\<open>field\<close> is an \<^verbatim>\<open>unsigned\<close>, 32 bits; with an index of 4 or more it is read without
  ever being assigned, which is \<open>None\<close>.
\<close>

definition handle_get_dirent_index :: "Expr \<Rightarrow> Handler \<Rightarrow> Handler option" where
  "handle_get_dirent_index dirent_index_val h =
     (case getZExtValue dirent_index_val of
        None \<Rightarrow> None
      | Some index_uint \<Rightarrow>
          let assignments = [ucast (d_ino (dirent_entry h)) :: 32 word,
                             ucast (d_off (dirent_entry h)),
                             ucast (d_reclen (dirent_entry h)),
                             ucast (d_type (dirent_entry h))];
              entered = (if index_uint < 4 then drop (unat index_uint) assignments else []);
              field = foldl (\<lambda>f v. Some v) None entered
          in case field of
               None \<Rightarrow> None
             | Some f \<Rightarrow> Some (bindLocal (create (ucast f) 64) h))"

definition set_up_dirent_struct :: "dirent \<Rightarrow> Handler \<Rightarrow> Handler" where
  "set_up_dirent_struct info h =
     h\<lparr>dirent_entry :=
        \<lparr>d_ino = d_ino info, d_off = d_off info, d_reclen = d_reclen info,
         d_type = d_type info, d_name = d_name info\<rparr>\<rparr>"

definition handle__my_readdir ::
  "(64 word \<Rightarrow> dirent option) \<Rightarrow> Expr \<Rightarrow> Handler \<Rightarrow> Handler option" where
  "handle__my_readdir readdir dir_val h =
     (case getZExtValue dir_val of
        None \<Rightarrow> None
      | Some dir_uint \<Rightarrow>
          (case readdir dir_uint of
             None \<Rightarrow> Some (bindLocal (create 0 1) h)
           | Some dirent \<Rightarrow> Some (bindLocal (create 1 1) (set_up_dirent_struct dirent h))))"

definition handle__fstat64 ::
  "(64 word \<Rightarrow> stat option) \<Rightarrow> Expr \<Rightarrow> Expr \<Rightarrow> Handler \<Rightarrow> Handler option" where
  "handle__fstat64 fstat fd_val stat_val h =
     (case (getZExtValue fd_val, getZExtValue stat_val) of
        (Some fd_uint, Some stat_uint) \<Rightarrow>
          (case fstat fd_uint of
             None \<Rightarrow> Some ((bindLocal (create (- 1) 32) h)\<lparr>errno := EFAULT\<rparr>)
           | Some info \<Rightarrow>
               Some ((bindLocal (create 0 64) (set_up_fstat_struct info h))\<lparr>errno := 0\<rparr>))
      | _ \<Rightarrow> None)"

definition handle__stat64 ::
  "(64 word \<Rightarrow> stat option) \<Rightarrow> Expr \<Rightarrow> Expr \<Rightarrow> Handler \<Rightarrow> Handler option" where
  "handle__stat64 stat_call path_val stat_val h =
     (case (getZExtValue path_val, getZExtValue stat_val) of
        (Some path_uint, Some stat_uint) \<Rightarrow>
          (case stat_call path_uint of
             None \<Rightarrow> Some ((bindLocal (create (- 1) 32) h)\<lparr>errno := EFAULT\<rparr>)
           | Some stat_struct \<Rightarrow> Some ((bindLocal (create 0 64) h)\<lparr>errno := 0\<rparr>))
      | _ \<Rightarrow> None)"

text \<open>Two file statuses, a directory entry and a handler that has served no call yet.\<close>

definition example_stat :: stat where
  "example_stat = \<lparr>st_dev = 1, st_ino = 2, st_nlink = 4, st_mode = 3, st_uid = 5, st_gid = 6,
     st_rdev = 7, st_size = 8, st_blksize = 9, st_blocks = 10\<rparr>"

definition other_stat :: stat where
  "other_stat = \<lparr>st_dev = 11, st_ino = 12, st_nlink = 14, st_mode = 13, st_uid = 15,
     st_gid = 16, st_rdev = 17, st_size = 18, st_blksize = 19, st_blocks = 20\<rparr>"

definition example_dirent :: dirent where
  "example_dirent = \<lparr>d_ino = 5, d_off = 6, d_reclen = 7, d_type = 8, d_name = ''a.txt''\<rparr>"

definition fresh_handler :: Handler where
  "fresh_handler = \<lparr>local = None, errno = 0, fstat_vector = [],
     dirent_entry = \<lparr>d_ino = 0, d_off = 0, d_reclen = 0, d_type = 0, d_name = []\<rparr>\<rparr>"

subsection \<open>The memory bridge\<close>

text \<open>
  \<^verbatim>\<open>AddressSpace::TryRead\<close> and \<^verbatim>\<open>AddressSpace::TryWrite\<close> are declared in
  \<^verbatim>\<open>Native/Memory/AddressSpace.h\<close>; they are parameters here, over a concrete store
  \<open>'m\<close>. \<^verbatim>\<open>TryRead\<close> is handed a pointer to the caller's variable and returns whether it
  succeeded: \<open>TryReadN\<close> is the value a successful read stores there, \<open>None\<close> when the read
  fails, and \<open>FailedReadN\<close> is what the variable holds after a failing read, given what it
  held before (the identity for a read that stores nothing before it fails).
  Modelled from the spec: a write that fails reports so and leaves the store as it was.
  The handlers' log lines are left out.
\<close>

record 'm AddressSpaceOps =
  TryRead8 :: "'m \<Rightarrow> 64 word \<Rightarrow> 8 word option"
  TryRead16 :: "'m \<Rightarrow> 64 word \<Rightarrow> 16 word option"
  TryRead32 :: "'m \<Rightarrow> 64 word \<Rightarrow> 32 word option"
  TryRead64 :: "'m \<Rightarrow> 64 word \<Rightarrow> 64 word option"
  FailedRead8 :: "'m \<Rightarrow> 64 word \<Rightarrow> 8 word \<Rightarrow> 8 word"
  FailedRead16 :: "'m \<Rightarrow> 64 word \<Rightarrow> 16 word \<Rightarrow> 16 word"
  FailedRead32 :: "'m \<Rightarrow> 64 word \<Rightarrow> 32 word \<Rightarrow> 32 word"
  FailedRead64 :: "'m \<Rightarrow> 64 word \<Rightarrow> 64 word \<Rightarrow> 64 word"
  TryWrite8 :: "'m \<Rightarrow> 64 word \<Rightarrow> 8 word \<Rightarrow> 'm option"
  TryWrite16 :: "'m \<Rightarrow> 64 word \<Rightarrow> 16 word \<Rightarrow> 'm option"
  TryWrite32 :: "'m \<Rightarrow> 64 word \<Rightarrow> 32 word \<Rightarrow> 'm option"
  TryWrite64 :: "'m \<Rightarrow> 64 word \<Rightarrow> 64 word \<Rightarrow> 'm option"

text \<open>
  An address space: the concrete store, and \<^verbatim>\<open>symbolic_memory->objects\<close>, the overlay
  objects. That container is keyed by the object's address and an insertion under a key
  already there changes nothing, so it is a map from the address to the object's name.
\<close>

record 'm AddressSpace =
  store :: "'m"
  objects :: "64 word \<rightharpoonup> string"

text \<open>A memory object of \<^verbatim>\<open>state.symbolics\<close>: which object it is, and its name.\<close>

record MemoryObject =
  ident :: nat
  name :: string

text \<open>
  The execution state: the destination cell, \<^verbatim>\<open>state.symbolics\<close>, \<^verbatim>\<open>state.addressSpace\<close>
  and the address spaces \<^verbatim>\<open>executor.Memory(handle)\<close> resolves.
  Modelled from the spec: the object states of \<^verbatim>\<open>state.addressSpace\<close> (class
  \<^verbatim>\<open>ObjectState\<close>, not among the sources). For each symbolic object the state holds the
  expression that \<^verbatim>\<open>read(0, 32)\<close> yields; \<^verbatim>\<open>write(0, e)\<close> makes that expression \<open>e\<close>, a
  read after a write returning the identical expression.
\<close>

record 'm ExecutionState = Cell +
  symbolics :: "MemoryObject list"
  addressSpace :: "nat \<Rightarrow> Expr"
  Memory :: "64 word \<Rightarrow> 'm AddressSpace"

text \<open>
  The inner loop of \<^verbatim>\<open>handle__remill_read_32\<close>, over \<^verbatim>\<open>state.symbolics\<close>: every symbolic
  of the overlay's name binds what its object state reads.
\<close>

definition read_overlay :: "string \<Rightarrow> 'm ExecutionState \<Rightarrow> 'm ExecutionState" where
  "read_overlay symbol st =
     foldl (\<lambda>s sym_pairs.
              if symbol = name sym_pairs
              then bindLocal (addressSpace s (ident sym_pairs)) s
              else s)
       st (symbolics st)"

definition handle__remill_read_8 ::
  "'m AddressSpaceOps \<Rightarrow> Expr \<Rightarrow> Expr \<Rightarrow> 'm ExecutionState \<Rightarrow> 'm ExecutionState option" where
  "handle__remill_read_8 ops mem_val addr_val st =
     (case (getZExtValue mem_val, getZExtValue addr_val) of
        (Some mem_uint, Some addr_uint) \<Rightarrow>
          let mem = Memory st mem_uint;
              value_uint = (case TryRead8 ops (store mem) addr_uint of
                              Some v \<Rightarrow> v
                            | None \<Rightarrow> FailedRead8 ops (store mem) addr_uint (NOT 0))
          in Some (bindLocal (create (ucast value_uint) 8) st)
      | _ \<Rightarrow> None)"

definition handle__remill_read_16 ::
  "'m AddressSpaceOps \<Rightarrow> Expr \<Rightarrow> Expr \<Rightarrow> 'm ExecutionState \<Rightarrow> 'm ExecutionState option" where
  "handle__remill_read_16 ops mem_val addr_val st =
     (case (getZExtValue mem_val, getZExtValue addr_val) of
        (Some mem_uint, Some addr_uint) \<Rightarrow>
          let mem = Memory st mem_uint;
              value_uint = (case TryRead16 ops (store mem) addr_uint of
                              Some v \<Rightarrow> v
                            | None \<Rightarrow> FailedRead16 ops (store mem) addr_uint (NOT 0))
          in Some (bindLocal (create (ucast value_uint) 16) st)
      | _ \<Rightarrow> None)"

definition handle__remill_read_32 ::
  "'m AddressSpaceOps \<Rightarrow> Expr \<Rightarrow> Expr \<Rightarrow> 'm ExecutionState \<Rightarrow> 'm ExecutionState option" where
  "handle__remill_read_32 ops mem_val addr_val st =
     (case (getZExtValue mem_val, getZExtValue addr_val) of
        (Some mem_uint, Some addr_uint) \<Rightarrow>
          let mem = Memory st mem_uint in
          (case objects mem addr_uint of
             Some symbol \<Rightarrow> Some (read_overlay symbol st)
           | None \<Rightarrow>
               let value_uint = (case TryRead32 ops (store mem) addr_uint of
                                   Some v \<Rightarrow> v
                                 | None \<Rightarrow> FailedRead32 ops (store mem) addr_uint (NOT 0))
               in Some (bindLocal (create (ucast value_uint) 32) st))
      | _ \<Rightarrow> None)"

definition handle__remill_read_64 ::
  "'m AddressSpaceOps \<Rightarrow> Expr \<Rightarrow> Expr \<Rightarrow> 'm ExecutionState \<Rightarrow> 'm ExecutionState option" where
  "handle__remill_read_64 ops mem_val addr_val st =
     (case (getZExtValue mem_val, getZExtValue addr_val) of
        (Some mem_uint, Some addr_uint) \<Rightarrow>
          let mem = Memory st mem_uint;
              value_uint = (case TryRead64 ops (store mem) addr_uint of
                              Some v \<Rightarrow> v
                            | None \<Rightarrow> FailedRead64 ops (store mem) addr_uint (NOT 0))
          in Some (bindLocal (create value_uint 64) st)
      | _ \<Rightarrow> None)"

text \<open>A successful \<^verbatim>\<open>TryWrite\<close> leaves its effect in the store of the address space.\<close>

definition set_store :: "64 word \<Rightarrow> 'm \<Rightarrow> 'm ExecutionState \<Rightarrow> 'm ExecutionState" where
  "set_store mem_uint s st =
     st\<lparr>Memory := (Memory st)(mem_uint := (Memory st mem_uint)\<lparr>store := s\<rparr>)\<rparr>"

definition handle__remill_write_64 ::
  "'m AddressSpaceOps \<Rightarrow> Expr \<Rightarrow> Expr \<Rightarrow> Expr \<Rightarrow> 'm ExecutionState
     \<Rightarrow> 'm ExecutionState option" where
  "handle__remill_write_64 ops mem_val addr_val value_val st =
     (case (getZExtValue mem_val, getZExtValue addr_val, getZExtValue value_val) of
        (Some mem_uint, Some addr_uint, Some value_uint) \<Rightarrow>
          (case TryWrite64 ops (store (Memory st mem_uint)) addr_uint value_uint of
             Some s \<Rightarrow> Some (bindLocal mem_val (set_store mem_uint s st))
           | None \<Rightarrow> Some (bindLocal (createPointer 0) st))
      | _ \<Rightarrow> None)"

text \<open>
  In \<^verbatim>\<open>handle__remill_write_32\<close> the closing \<^verbatim>\<open>bindLocal\<close> of the null pointer stands after
  the \<^verbatim>\<open>if\<close>/\<^verbatim>\<open>else\<close>, so every path that returns runs it last. For a value that is not a
  constant the handler takes the array name from the value's first kid, which has to be a
  read expression, and for every symbolic of that name puts an overlay object at the
  address and writes the value to the symbolic's object state.
\<close>

definition write_overlay ::
  "64 word \<Rightarrow> 64 word \<Rightarrow> string \<Rightarrow> Expr \<Rightarrow> 'm ExecutionState \<Rightarrow> 'm ExecutionState" where
  "write_overlay mem_uint addr_uint symbol value_val st =
     foldl (\<lambda>s pairs.
              if name pairs = symbol
              then s\<lparr>Memory := (Memory s)(mem_uint := (Memory s mem_uint)
                        \<lparr>objects :=
                           (case objects (Memory s mem_uint) addr_uint of
                              None \<Rightarrow> (objects (Memory s mem_uint))(addr_uint \<mapsto> symbol)
                            | Some old \<Rightarrow> objects (Memory s mem_uint))\<rparr>),
                     addressSpace := (addressSpace s)(ident pairs := value_val)\<rparr>
              else s)
       st (symbolics st)"

definition handle__remill_write_32 ::
  "'m AddressSpaceOps \<Rightarrow> Expr \<Rightarrow> Expr \<Rightarrow> Expr \<Rightarrow> 'm ExecutionState
     \<Rightarrow> 'm ExecutionState option" where
  "handle__remill_write_32 ops mem_val addr_val value_val st =
     (case (getZExtValue mem_val, getZExtValue addr_val) of
        (Some mem_uint, Some addr_uint) \<Rightarrow>
          (case value_val of
             ConstantExpr v w \<Rightarrow>
               let value_uint = (ucast v :: 32 word) in
               (case TryWrite32 ops (store (Memory st mem_uint)) addr_uint value_uint of
                  Some s \<Rightarrow>
                    Some (bindLocal (createPointer 0)
                            (bindLocal mem_val (set_store mem_uint s st)))
                | None \<Rightarrow> Some (bindLocal (createPointer 0) st))
           | _ \<Rightarrow>
               (case getKid0 value_val of
                  Some (ReadExpr symbol i) \<Rightarrow>
                    Some (bindLocal (createPointer 0)
                            (write_overlay mem_uint addr_uint symbol value_val st))
                | _ \<Rightarrow> None))
      | _ \<Rightarrow> None)"

definition handle__remill_write_16 ::
  "'m AddressSpaceOps \<Rightarrow> Expr \<Rightarrow> Expr \<Rightarrow> Expr \<Rightarrow> 'm ExecutionState
     \<Rightarrow> 'm ExecutionState option" where
  "handle__remill_write_16 ops mem_val addr_val value_val st =
     (case (getZExtValue mem_val, getZExtValue addr_val, getZExtValue value_val) of
        (Some mem_uint, Some addr_uint, Some value_uint) \<Rightarrow>
          (case TryWrite16 ops (store (Memory st mem_uint)) addr_uint (ucast value_uint) of
             Some s \<Rightarrow> Some (bindLocal mem_val (set_store mem_uint s st))
           | None \<Rightarrow> Some (bindLocal (createPointer 0) st))
      | _ \<Rightarrow> None)"

definition handle__remill_write_8 ::
  "'m AddressSpaceOps \<Rightarrow> Expr \<Rightarrow> Expr \<Rightarrow> Expr \<Rightarrow> 'm ExecutionState
     \<Rightarrow> 'm ExecutionState option" where
  "handle__remill_write_8 ops mem_val addr_val value_val st =
     (case (getZExtValue mem_val, getZExtValue addr_val, getZExtValue value_val) of
        (Some mem_uint, Some addr_uint, Some value_uint) \<Rightarrow>
          (case TryWrite8 ops (store (Memory st mem_uint)) addr_uint (ucast value_uint) of
             Some s \<Rightarrow> Some (bindLocal mem_val (set_store mem_uint s st))
           | None \<Rightarrow> Some (bindLocal (createPointer 0) st))
      | _ \<Rightarrow> None)"

text \<open>
  An address space for evaluating the handlers: a store of 8-byte cells, a cell being
  readable and writable at its own address in every width (the low bytes of the cell), and
  no other address being mapped; a read that fails stores nothing. The example state has one such cell at \<open>0x1000\<close> in every
  address space, one symbolic named \<open>x\<close>, and no overlay object.
\<close>

definition cell_ops :: "(64 word \<rightharpoonup> 64 word) AddressSpaceOps" where
  "cell_ops =
     \<lparr> TryRead8 = (\<lambda>s a. map_option ucast (s a)),
       TryRead16 = (\<lambda>s a. map_option ucast (s a)),
       TryRead32 = (\<lambda>s a. map_option ucast (s a)),
       TryRead64 = (\<lambda>s a. s a),
       FailedRead8 = (\<lambda>s a v. v),
       FailedRead16 = (\<lambda>s a v. v),
       FailedRead32 = (\<lambda>s a v. v),
       FailedRead64 = (\<lambda>s a v. v),
       TryWrite8 = (\<lambda>s a v. map_option (\<lambda>old. s(a \<mapsto> (old AND NOT 0xFF) OR ucast v)) (s a)),
       TryWrite16 =
         (\<lambda>s a v. map_option (\<lambda>old. s(a \<mapsto> (old AND NOT 0xFFFF) OR ucast v)) (s a)),
       TryWrite32 =
         (\<lambda>s a v. map_option (\<lambda>old. s(a \<mapsto> (old AND NOT 0xFFFFFFFF) OR ucast v)) (s a)),
       TryWrite64 = (\<lambda>s a v. map_option (\<lambda>old. s(a \<mapsto> v)) (s a)) \<rparr>"

definition example_state :: "(64 word \<rightharpoonup> 64 word) ExecutionState" where
  "example_state =
     \<lparr> local = None,
       symbolics = [\<lparr>ident = 0, name = ''x''\<rparr>],
       addressSpace = (\<lambda>i. OtherExpr 0 [ReadExpr ''x'' 0]),
       Memory = (\<lambda>h. \<lparr>store = [0x1000 \<mapsto> 0x1122334455667788], objects = Map.empty\<rparr>) \<rparr>"

text \<open>A 32-bit symbolic value: the concatenation of four reads of the array \<open>x\<close>.\<close>

definition sym_x :: Expr where
  "sym_x = OtherExpr 1 [ReadExpr ''x'' 3, ReadExpr ''x'' 2, ReadExpr ''x'' 1, ReadExpr ''x'' 0]"

section \<open>Properties of the allocator intercepts\<close>

lemma sentinel_values:
  "kBadAddr = 0xFFFFFFFFFFFFFFFF"
  "kReallocInternalPtr = 0xFFFFFFFFFFFFFFFE"
  "kReallocTooBig = 0xFFFFFFFFFFFFFFFD"
  "kReallocInvalidPtr = 0xFFFFFFFFFFFFFFFC"
  "kReallocFreedPtr = 0xFFFFFFFFFFFFFFFB"
  "kMallocTooBig = 0xFFFFFFFFFFFFFFFE"
  by (simp_all add: kBadAddr_def kReallocInternalPtr_def kReallocTooBig_def
      kReallocInvalidPtr_def kReallocFreedPtr_def kMallocTooBig_def)

text \<open>
  C7. In \<^verbatim>\<open>Intercept_realloc\<close>, once the arguments were read, the result of the tracked
  allocator (the malloc routine for a null pointer, the realloc routine otherwise) decides
  the ending: each of the four invalid-pointer sentinels ends in \<^verbatim>\<open>klee_abort\<close>, and the
  bad-address sentinel ends in \<^verbatim>\<open>return memory\<close>, the fall-back to the host allocator,
  without an abort.
\<close>

theorem realloc_sentinels_abort:
  assumes "new_ptr = (if ptr = 0 then malloc_intercept A alloc_size
                      else realloc_intercept A ptr alloc_size)"
  shows "(new_ptr \<in> {kReallocInternalPtr, kReallocTooBig, kReallocInvalidPtr, kReallocFreedPtr}
            \<longrightarrow> snd (Intercept_realloc A (Some (ptr, alloc_size))) = Abort)
       \<and> (new_ptr = kBadAddr
            \<longrightarrow> snd (Intercept_realloc A (Some (ptr, alloc_size))) = ReturnMemory)"
  using assms
  by (auto simp: Intercept_realloc_def sentinel_values split: prod.splits)

theorem realloc_sentinels_abort_witness:
  "snd (Intercept_realloc example_allocator (Some (0x1008, 0x10))) = Abort
   \<and> snd (Intercept_realloc example_allocator (Some (0x1000, 0x1000))) = Abort
   \<and> snd (Intercept_realloc example_allocator (Some (0x3000, 0x10))) = Abort
   \<and> snd (Intercept_realloc example_allocator (Some (0x2000, 0x10))) = Abort
   \<and> snd (Intercept_realloc declining_allocator (Some (0x1000, 0x10))) = ReturnMemory"
  using realloc_sentinels_abort [of kReallocInternalPtr "0x1008" example_allocator "0x10"]
        realloc_sentinels_abort [of kReallocTooBig "0x1000" example_allocator "0x1000"]
        realloc_sentinels_abort [of kReallocInvalidPtr "0x3000" example_allocator "0x10"]
        realloc_sentinels_abort [of kReallocFreedPtr "0x2000" example_allocator "0x10"]
        realloc_sentinels_abort [of kBadAddr "0x1000" declining_allocator "0x10"]
  by (simp add: example_allocator_def declining_allocator_def sentinel_values)

text \<open>
  C8, as stated, fails. With the example allocator: \<^verbatim>\<open>realloc(NULL, 0)\<close> calls the tracked
  malloc routine with size 0, which \<^verbatim>\<open>malloc(0)\<close> never does; for a request the allocator
  finds too big, \<^verbatim>\<open>malloc\<close> falls back to the host and \<^verbatim>\<open>realloc(NULL, n)\<close> aborts, the
  value of \<^verbatim>\<open>kMallocTooBig\<close> being that of \<^verbatim>\<open>kReallocInternalPtr\<close>; and for a pointer that
  was freed before, \<^verbatim>\<open>free\<close> falls back to the host while \<^verbatim>\<open>realloc(ptr, 0)\<close> aborts.
\<close>

theorem realloc_degrades_counterexample:
  "Intercept_malloc example_allocator (Some 0) = ([], SetReturn 0)
   \<and> Intercept_realloc example_allocator (Some (0, 0)) = ([CallMalloc 0], SetReturn 0x1000)
   \<and> Intercept_realloc example_allocator (Some (0, 0))
        \<noteq> Intercept_malloc example_allocator (Some 0)
   \<and> Intercept_malloc example_allocator (Some 0x1000) = ([CallMalloc 0x1000], ReturnMemory)
   \<and> Intercept_realloc example_allocator (Some (0, 0x1000)) = ([CallMalloc 0x1000], Abort)
   \<and> Intercept_realloc example_allocator (Some (0, 0x1000))
        \<noteq> Intercept_malloc example_allocator (Some 0x1000)
   \<and> Intercept_free example_allocator (Some 0x2000) = ([CallFree 0x2000], ReturnMemory)
   \<and> Intercept_realloc example_allocator (Some (0x2000, 0)) = ([CallRealloc 0x2000 0], Abort)
   \<and> Intercept_realloc example_allocator (Some (0x2000, 0))
        \<noteq> Intercept_free example_allocator (Some 0x2000)"
  by (simp add: Intercept_malloc_def Intercept_realloc_def Intercept_free_def
      example_allocator_def sentinel_values)

text \<open>
  C8, amended. \<^verbatim>\<open>malloc(0)\<close> sets the null pointer as return value and makes no call to the
  tracked allocator. \<^verbatim>\<open>realloc(NULL, n)\<close> with \<open>n \<noteq> 0\<close> is \<^verbatim>\<open>malloc(n)\<close>, same call and same
  ending, whenever the tracked malloc routine returns none of the four values that realloc
  reads as invalid-pointer sentinels. \<^verbatim>\<open>realloc(ptr, 0)\<close> with a non-null pointer is handed to
  the tracked realloc routine with size 0 and to nothing else; it ends as a successful
  \<^verbatim>\<open>free(ptr)\<close> does when that routine returns the null pointer.
\<close>

theorem realloc_degrades_amended:
  "Intercept_malloc A (Some 0) = ([], SetReturn 0)
   \<and> (n \<noteq> 0 \<and> malloc_intercept A n \<notin>
          {kReallocInternalPtr, kReallocTooBig, kReallocInvalidPtr, kReallocFreedPtr}
        \<longrightarrow> Intercept_realloc A (Some (0, n)) = Intercept_malloc A (Some n))
   \<and> (p \<noteq> 0 \<longrightarrow> fst (Intercept_realloc A (Some (p, 0))) = [CallRealloc p 0])
   \<and> (p \<noteq> 0 \<and> realloc_intercept A p 0 = 0 \<and> free_intercept A p
        \<longrightarrow> snd (Intercept_realloc A (Some (p, 0))) = snd (Intercept_free A (Some p)))"
  by (auto simp: Intercept_malloc_def Intercept_realloc_def Intercept_free_def
      sentinel_values Let_def)

theorem realloc_degrades_amended_witness:
  "Intercept_malloc example_allocator (Some 0) = ([], SetReturn 0)
   \<and> Intercept_realloc example_allocator (Some (0, 0x10))
        = Intercept_malloc example_allocator (Some 0x10)
   \<and> fst (Intercept_realloc example_allocator (Some (0x1000, 0))) = [CallRealloc 0x1000 0]
   \<and> snd (Intercept_realloc example_allocator (Some (0x1000, 0)))
        = snd (Intercept_free example_allocator (Some 0x1000))"
  using realloc_degrades_amended [of example_allocator "0x10" "0x1000"]
  by (simp add: example_allocator_def sentinel_values)

section \<open>Properties of trace discovery and rehydration\<close>

lemma batch_loop_concat:
  "batch_loop S as prev b ws = (b', ws') \<Longrightarrow>
   concat (map traces ws') @ b' = concat (map traces ws) @ b @ as"
  by (induction as arbitrary: prev b ws) (auto split: if_splits)

lemma decodeAndLiftMappings_traces:
  "concat (map traces (workers (decodeAndLiftMappings S path trace_file pl)))
     = concat (map traces (workers pl)) @ file_addresses trace_file"
  by (cases trace_file)
     (auto simp: decodeAndLiftMappings_def file_addresses_def split: prod.splits
           dest!: batch_loop_concat)

text \<open>
  C3, as stated, fails. With no trace-list file \<^verbatim>\<open>decodeAndLiftMappings\<close> logs nothing and
  makes no worker; with a file that does not open it logs and makes no worker either. It
  calls neither discovery pass, and a pass that were called would add no trace: so no
  candidate trace is produced, whatever code is reachable.
\<close>

theorem missing_trace_list_counterexample:
  "glog (decodeAndLiftMappings example_IsSameMappedRange ''/ws/trace_list'' Missing
        \<lparr>workers = [], glog = []\<rparr>) = []
   \<and> workers (decodeAndLiftMappings example_IsSameMappedRange ''/ws/trace_list'' Missing
        \<lparr>workers = [], glog = []\<rparr>) = []
   \<and> workers (decodeAndLiftMappings example_IsSameMappedRange ''/ws/trace_list'' Unreadable
        \<lparr>workers = [], glog = []\<rparr>) = []
   \<and> RecursiveDescentPass example_FindRange [] (Map.empty :: 64 word \<rightharpoonup> nat) = ([], Map.empty)
   \<and> LinearSweepPass example_FindRange [] (Map.empty :: 64 word \<rightharpoonup> nat) = ([], Map.empty)"
  by (simp add: decodeAndLiftMappings_def RecursiveDescentPass_def LinearSweepPass_def)

text \<open>
  C3, amended. When the trace-list file is missing, \<^verbatim>\<open>decodeAndLiftMappings\<close> leaves the
  lifter as it was: nothing is logged and no batch is produced. When the file exists and
  cannot be read, the condition is logged as an error, whose text announces the fall-back,
  and no batch is produced either: no discovery runs in its place.
\<close>

theorem no_trace_list_no_batches:
  "decodeAndLiftMappings S path Missing pl = pl
   \<and> decodeAndLiftMappings S path Unreadable pl =
       pl\<lparr>glog := glog pl @
         [(INFO, ''grabbing traces from the trace list file in the workspace''),
          (ERROR, ''cannot read the trace list file at '' @ path @
                  '' , falling back to recursive descent and linear sweep'')]\<rparr>
   \<and> workers (decodeAndLiftMappings S path Unreadable pl) = workers pl"
  by (simp add: decodeAndLiftMappings_def)

text \<open>
  C4. \<^verbatim>\<open>RecursiveDescentPass\<close> and \<^verbatim>\<open>LinearSweepPass\<close> return the decoder work list and the
  trace map as they were passed in, for every memory map, work list and trace map. The
  trace addresses of the workers that \<^verbatim>\<open>decodeAndLiftMappings\<close> adds are the addresses of
  the trace-list file, in the file's order, and nothing else.
\<close>

theorem discovery_passes_are_noops:
  "RecursiveDescentPass range_map decoder_work_list new_lifted_traces
     = (decoder_work_list, new_lifted_traces)
   \<and> LinearSweepPass range_map decoder_work_list new_lifted_traces
     = (decoder_work_list, new_lifted_traces)
   \<and> concat (map traces (workers (decodeAndLiftMappings S path trace_file pl)))
     = concat (map traces (workers pl)) @ file_addresses trace_file"
  by (simp add: RecursiveDescentPass_def LinearSweepPass_def decodeAndLiftMappings_traces)

text \<open>
  The extraction reads back the names that \<^verbatim>\<open>LiftMapping\<close> writes: the field before the
  dash of a cache file's name yields the first trace address of its batch, so the file is
  registered under the name of the region \<^verbatim>\<open>FindRange\<close> gives for that address.
\<close>

lemma hex_digit_hex_char: "d < 16 \<Longrightarrow> hex_digit (hex_char d) = Some d"
proof -
  assume "d < 16"
  then have "d = 0 \<or> d = 1 \<or> d = 2 \<or> d = 3 \<or> d = 4 \<or> d = 5 \<or> d = 6 \<or> d = 7
      \<or> d = 8 \<or> d = 9 \<or> d = 10 \<or> d = 11 \<or> d = 12 \<or> d = 13 \<or> d = 14 \<or> d = 15"
    by arith
  then show ?thesis
    by (elim disjE) (simp_all add: hex_char_def hex_digit_def)
qed

lemma not_hex_digit_dash: "hex_digit CHR ''-'' = None"
  by (simp add: hex_digit_def)

lemma not_hex_digit_plus: "hex_digit CHR ''+'' = None"
  by (simp add: hex_digit_def)

lemma not_hex_digit_space: "is_space c \<Longrightarrow> hex_digit c = None"
proof -
  assume "is_space c"
  then have "c = CHR '' '' \<or> c = CHR 0x09 \<or> c = CHR 0x0A \<or> c = CHR 0x0B \<or> c = CHR 0x0C
               \<or> c = CHR 0x0D"
    by (simp add: is_space_def)
  then show ?thesis
    by (elim disjE) (simp_all add: hex_digit_def)
qed

lemma hex_char_not_dash: "d < 16 \<Longrightarrow> hex_char d \<noteq> CHR ''-''"
proof
  assume "d < 16" and "hex_char d = CHR ''-''"
  then have "hex_digit CHR ''-'' = Some d"
    using hex_digit_hex_char [of d] by simp
  then show False
    by (simp add: not_hex_digit_dash)
qed


lemma to_hex_digits: "c \<in> set (to_hex n) \<Longrightarrow> \<exists>d < 16. c = hex_char d"
proof (induction n rule: to_hex.induct)
  case (1 n)
  show ?case
  proof (cases "n < 16")
    case True
    with "1.prems" show ?thesis by (auto simp: to_hex.simps [of n])
  next
    case False
    with "1.prems" have "c \<in> set (to_hex (n div 16)) \<or> c = hex_char (n mod 16)"
      by (auto simp: to_hex.simps [of n])
    then show ?thesis
    proof
      assume "c \<in> set (to_hex (n div 16))"
      with "1.IH" False show ?thesis by blast
    next
      assume "c = hex_char (n mod 16)"
      moreover have "n mod 16 < 16" by simp
      ultimately show ?thesis by blast
    qed
  qed
qed

lemma to_hex_nonempty: "to_hex n \<noteq> []"
  by (subst to_hex.simps) simp

lemma foldl_to_hex:
  "foldl (\<lambda>acc c. 16 * acc + the (hex_digit c)) a (to_hex n) =
     a * 16 ^ length (to_hex n) + n"
proof (induction n arbitrary: a rule: to_hex.induct)
  case (1 n)
  show ?case
  proof (cases "n < 16")
    case True
    then show ?thesis by (simp add: to_hex.simps [of n] hex_digit_hex_char)
  next
    case False
    have m: "n mod 16 < 16" by simp
    from False "1.IH" [of a] show ?thesis
      by (simp add: to_hex.simps [of n] hex_digit_hex_char [OF m] algebra_simps)
  qed
qed


lemma takeWhile_stops:
  "\<forall>x \<in> set xs. P x \<Longrightarrow> \<not> P y \<Longrightarrow> takeWhile P (xs @ y # ys) = xs"
  by (induction xs) auto

lemma to_hex_is_hex: "c \<in> set (to_hex n) \<Longrightarrow> hex_digit c \<noteq> None"
  using to_hex_digits [of c n] hex_digit_hex_char by auto

lemma hex_value_to_hex: "hex_value (to_hex n) = n"
proof -
  have "takeWhile (\<lambda>c. hex_digit c \<noteq> None) (to_hex n) = to_hex n"
    by (rule takeWhile_eq_all_conv [THEN iffD2]) (auto dest: to_hex_is_hex)
  then have "hex_value (to_hex n) =
      foldl (\<lambda>acc c. 16 * acc + the (hex_digit c)) 0 (to_hex n)"
    by (simp only: hex_value_def)
  then show ?thesis
    by (simp add: foldl_to_hex)
qed

lemma substr_to_dash_cache_file_name:
  "substr_to_dash (cache_file_name start stop) = ''0x'' @ to_hex (unat start)"
proof -
  have "\<forall>c \<in> set (''0x'' @ to_hex (unat start)). c \<noteq> CHR ''-''"
    using to_hex_digits hex_char_not_dash by fastforce
  then have "takeWhile (\<lambda>c. c \<noteq> CHR ''-'')
               ((''0x'' @ to_hex (unat start)) @ CHR ''-'' # ''0x'' @ to_hex (unat stop))
             = ''0x'' @ to_hex (unat start)"
    by (rule takeWhile_stops) simp
  then show ?thesis
    by (simp add: substr_to_dash_def cache_file_name_def)
qed

lemma extract_hex_prefixed: "extract_hex (''0x'' @ to_hex (unat a)) = Some a"
proof -
  obtain c cs where cs: "to_hex (unat a) = c # cs"
    using to_hex_nonempty [of "unat a"] by (cases "to_hex (unat a)") auto
  then have c: "hex_digit c \<noteq> None"
    using to_hex_is_hex [of c "unat a"] by simp
  have "unat a < 2 ^ 64"
    using unsigned_less [of a, where ?'a = nat] by simp
  moreover have "hex_value (c # cs) = unat a"
    using hex_value_to_hex [of "unat a"] cs by simp
  ultimately show ?thesis
    using c by (simp add: extract_hex_def cs is_space_def)
qed

lemma page_name_cache_file_name:
  "page_name FindRange (cache_file_name start stop) = Some (Name (FindRange start))"
  by (simp add: page_name_def substr_to_dash_cache_file_name extract_hex_prefixed
      del: append.simps)

text \<open>
  The extraction stores a value exactly when the field has a character that is not white
  space; the scan of a listing is defined exactly when every entry other than \<^verbatim>\<open>.\<close> and
  \<^verbatim>\<open>..\<close> has such a field before its first dash.
\<close>

lemma extract_hex_defined: "(extract_hex s \<noteq> None) = (\<exists>c \<in> set s. \<not> is_space c)"
proof (cases "dropWhile is_space s")
  case Nil
  then have "extract_hex s = None"
    by (simp only: extract_hex_def list.case)
  with Nil show ?thesis
    by (simp add: dropWhile_eq_Nil_conv)
next
  case (Cons c cs)
  then have "extract_hex s \<noteq> None"
    by (simp only: extract_hex_def list.case Let_def) simp
  moreover from Cons have "dropWhile is_space s \<noteq> []"
    by simp
  ultimately show ?thesis
    by (simp add: dropWhile_eq_Nil_conv)
qed

lemma page_name_defined:
  "(page_name FR d \<noteq> None) = (\<exists>c \<in> set (substr_to_dash d). \<not> is_space c)"
  using extract_hex_defined [of "substr_to_dash d"]
  by (auto simp: page_name_def split: option.splits)

lemma rehydrate_snoc:
  "rehydrate FR LD path (ents @ [d]) t =
     (case rehydrate FR LD path ents t of
        None \<Rightarrow> None
      | Some t' \<Rightarrow>
          if d = ''.'' \<or> d = ''..'' then Some t'
          else (case page_name FR d of
                  None \<Rightarrow> None
                | Some page \<Rightarrow> Some (t'(page \<mapsto> LD (path @ ''/'' @ d)))))"
  by (induction ents arbitrary: t) (auto split: option.splits)

lemma rehydrate_defined:
  "\<forall>d \<in> set ents. d \<noteq> ''.'' \<and> d \<noteq> ''..'' \<longrightarrow> page_name FR d \<noteq> None \<Longrightarrow>
   \<exists>t'. rehydrate FR LD path ents t = Some t'"
  by (induction ents arbitrary: t) auto

lemma rehydrate_closed_form:
  "rehydrate FR LD path ents t =
     (if \<forall>d \<in> set ents. d \<noteq> ''.'' \<and> d \<noteq> ''..'' \<longrightarrow> page_name FR d \<noteq> None
      then Some (t ++ map_of (rev (map (\<lambda>d. (the (page_name FR d), LD (path @ ''/'' @ d)))
                                    (filter (\<lambda>d. d \<noteq> ''.'' \<and> d \<noteq> ''..'') ents))))
      else None)"
proof (induction ents rule: rev_induct)
  case Nil
  then show ?case by simp
next
  case (snoc e ents)
  show ?case
  proof (cases "e = ''.'' \<or> e = ''..''")
    case True
    with snoc.IH show ?thesis by (auto simp: rehydrate_snoc)
  next
    case False
    show ?thesis
    proof (cases "page_name FR e")
      case None
      with False snoc.IH show ?thesis by (auto simp: rehydrate_snoc split: option.splits)
    next
      case (Some page)
      with False snoc.IH show ?thesis
        by (auto simp: rehydrate_snoc fun_eq_iff map_add_def split: option.splits)
    qed
  qed
qed

lemma rehydrate_again:
  "rehydrate FR LD path ents t = Some t' \<Longrightarrow> rehydrate FR LD path ents t' = Some t'"
  by (auto simp: rehydrate_closed_form fun_eq_iff map_add_def split: if_splits option.splits)

lemma rehydrate_last:
  "rehydrate FR LD path ents t = Some t' \<Longrightarrow>
   d \<in> set ents \<Longrightarrow> d \<noteq> ''.'' \<Longrightarrow> d \<noteq> ''..'' \<Longrightarrow> page_name FR d = Some page \<Longrightarrow>
   t' page =
     Some (LD (path @ ''/'' @
       last (filter (\<lambda>e. e \<noteq> ''.'' \<and> e \<noteq> ''..'' \<and> page_name FR e = Some page) ents)))"
proof (induction ents arbitrary: t' rule: rev_induct)
  case Nil
  then show ?case by simp
next
  case (snoc e ents)
  from snoc.prems(1) obtain t0 where t0: "rehydrate FR LD path ents t = Some t0"
    by (auto simp: rehydrate_snoc split: option.splits)
  show ?case
  proof (cases "e \<noteq> ''.'' \<and> e \<noteq> ''..'' \<and> page_name FR e = Some page")
    case True
    with snoc.prems(1) t0 show ?thesis by (auto simp: rehydrate_snoc)
  next
    case False
    with snoc.prems have d: "d \<in> set ents" by auto
    from False snoc.prems(1) t0 have "t' page = t0 page"
      by (auto simp: rehydrate_snoc split: if_splits option.splits)
    with snoc.IH [OF t0 d] snoc.prems False show ?thesis
      by auto
  qed
qed

text \<open>
  C10, amended. When every entry of the listing other than \<^verbatim>\<open>.\<close> and \<^verbatim>\<open>..\<close> has a
  character that is not white space before its first dash, the scan returns a table in
  which every such entry has a module registered under the name of the region that
  \<^verbatim>\<open>FindRange\<close> gives for the leading hexadecimal address extracted from its file name: the
  module loaded from the last entry of the listing with that region name (the entry itself
  when no later one shares the name). A second scan of the same listing leaves that table
  as it is.
\<close>

theorem rehydrate_registers_named_files:
  assumes "\<forall>d \<in> set ents. d \<noteq> ''.'' \<and> d \<noteq> ''..'' \<longrightarrow>
             (\<exists>c \<in> set (substr_to_dash d). \<not> is_space c)"
  shows "\<exists>t'. rehydrate FindRange LoadModuleFromFile path ents aot_traces = Some t'
           \<and> (\<forall>d \<in> set ents. d \<noteq> ''.'' \<and> d \<noteq> ''..'' \<longrightarrow>
                 (\<exists>map_label. extract_hex (substr_to_dash d) = Some map_label
                    \<and> t' (Name (FindRange map_label)) =
                        Some (LoadModuleFromFile (path @ ''/'' @
                          last (filter (\<lambda>e. e \<noteq> ''.'' \<and> e \<noteq> ''..'' \<and>
                                  page_name FindRange e = Some (Name (FindRange map_label)))
                                ents)))))
           \<and> rehydrate FindRange LoadModuleFromFile path ents t' = Some t'"
proof -
  have defd: "\<forall>d \<in> set ents. d \<noteq> ''.'' \<and> d \<noteq> ''..'' \<longrightarrow> page_name FindRange d \<noteq> None"
    unfolding page_name_defined by (rule assms)
  from rehydrate_defined [OF defd, where LD = LoadModuleFromFile and path = path
      and t = aot_traces]
  obtain t' where t': "rehydrate FindRange LoadModuleFromFile path ents aot_traces = Some t'"
    by (elim exE)
  have again: "rehydrate FindRange LoadModuleFromFile path ents t' = Some t'"
    by (rule rehydrate_again [OF t'])
  have reg: "\<exists>map_label. extract_hex (substr_to_dash d) = Some map_label
          \<and> t' (Name (FindRange map_label)) =
              Some (LoadModuleFromFile (path @ ''/'' @
                last (filter (\<lambda>e. e \<noteq> ''.'' \<and> e \<noteq> ''..'' \<and>
                        page_name FindRange e = Some (Name (FindRange map_label))) ents)))"
    if d: "d \<in> set ents" "d \<noteq> ''.''" "d \<noteq> ''..''" for d
  proof -
    from assms d have "\<exists>c \<in> set (substr_to_dash d). \<not> is_space c"
      by blast
    then have "extract_hex (substr_to_dash d) \<noteq> None"
      by (simp only: extract_hex_defined)
    then obtain map_label where m: "extract_hex (substr_to_dash d) = Some map_label"
      by (cases "extract_hex (substr_to_dash d)") simp_all
    then have p: "page_name FindRange d = Some (Name (FindRange map_label))"
      by (simp add: page_name_def)
    from rehydrate_last [OF t' d p] have
      "t' (Name (FindRange map_label)) =
         Some (LoadModuleFromFile (path @ ''/'' @
           last (filter (\<lambda>e. e \<noteq> ''.'' \<and> e \<noteq> ''..'' \<and>
                   page_name FindRange e = Some (Name (FindRange map_label))) ents)))" .
    with m show ?thesis
      by (intro exI conjI)
  qed
  show ?thesis
  proof (intro exI conjI)
    show "rehydrate FindRange LoadModuleFromFile path ents aot_traces = Some t'"
      by (rule t')
    show "rehydrate FindRange LoadModuleFromFile path ents t' = Some t'"
      by (rule again)
    show "\<forall>d \<in> set ents. d \<noteq> ''.'' \<and> d \<noteq> ''..'' \<longrightarrow>
            (\<exists>map_label. extract_hex (substr_to_dash d) = Some map_label
               \<and> t' (Name (FindRange map_label)) =
                   Some (LoadModuleFromFile (path @ ''/'' @
                     last (filter (\<lambda>e. e \<noteq> ''.'' \<and> e \<noteq> ''..'' \<and>
                             page_name FindRange e = Some (Name (FindRange map_label)))
                           ents))))"
      using reg by blast
  qed
qed

text \<open>The example listing: the addresses extracted, and the region names they give.\<close>

lemma example_extractions:
  "extract_hex (substr_to_dash ''0x400000-0x400fff'') = Some 0x400000"
  "extract_hex (substr_to_dash ''0x600000-0x600010'') = Some 0x600000"
  "extract_hex (substr_to_dash ''0x401000-0x401abc'') = Some 0x401000"
  by (simp_all add: extract_hex_def substr_to_dash_def hex_value_def hex_digit_def
      is_space_def)

lemma example_page_names:
  "page_name example_FindRange ''0x400000-0x400fff'' = Some ''text''"
  "page_name example_FindRange ''0x600000-0x600010'' = Some ''data''"
  "page_name example_FindRange ''0x401000-0x401abc'' = Some ''text''"
  by (simp_all add: page_name_def example_extractions example_FindRange_def)

theorem rehydrate_registers_named_files_witness:
  "\<exists>t'. rehydrate example_FindRange (\<lambda>p. p) ''/ws/prelift_traces'' example_listing Map.empty
           = Some t'
      \<and> t' ''data'' = Some ''/ws/prelift_traces/0x600000-0x600010''
      \<and> t' ''text'' = Some ''/ws/prelift_traces/0x401000-0x401abc''
      \<and> rehydrate example_FindRange (\<lambda>p. p) ''/ws/prelift_traces'' example_listing t' = Some t'"
proof -
  have named: "\<forall>d \<in> set example_listing. d \<noteq> ''.'' \<and> d \<noteq> ''..'' \<longrightarrow>
                 (\<exists>c \<in> set (substr_to_dash d). \<not> is_space c)"
    by (simp add: example_listing_def substr_to_dash_def is_space_def)
  from rehydrate_registers_named_files
         [OF named, of example_FindRange "\<lambda>p. p" "''/ws/prelift_traces''" Map.empty]
  obtain t' where
    first: "rehydrate example_FindRange (\<lambda>p. p) ''/ws/prelift_traces'' example_listing
              Map.empty = Some t'" and
    registered: "\<forall>d \<in> set example_listing. d \<noteq> ''.'' \<and> d \<noteq> ''..'' \<longrightarrow>
       (\<exists>map_label. extract_hex (substr_to_dash d) = Some map_label
          \<and> t' (Name (example_FindRange map_label)) =
              Some (''/ws/prelift_traces'' @ ''/'' @
                last (filter (\<lambda>e. e \<noteq> ''.'' \<and> e \<noteq> ''..'' \<and>
                        page_name example_FindRange e
                          = Some (Name (example_FindRange map_label)))
                      example_listing)))" and
    second: "rehydrate example_FindRange (\<lambda>p. p) ''/ws/prelift_traces'' example_listing t'
               = Some t'"
    by (elim exE conjE)
  from registered have
    "t' ''data'' = Some ''/ws/prelift_traces/0x600000-0x600010''
     \<and> t' ''text'' = Some ''/ws/prelift_traces/0x401000-0x401abc''"
    by (simp add: example_listing_def example_extractions example_page_names
        example_FindRange_def)
  with first second show ?thesis
    by (intro exI conjI) simp_all
qed

text \<open>
  C10, as stated for every file, fails. For a file named \<^verbatim>\<open>-d\<close> the field before the dash
  is empty, the extraction stores nothing, and the scan reads \<^verbatim>\<open>map_label\<close> uninitialised:
  no region is determined for the file, and the scan of a listing that holds it has no
  defined table, also when the other files are well named or when the field is blank.
\<close>

theorem unnamed_file_counterexample:
  "extract_hex (substr_to_dash ''-d'') = None
   \<and> rehydrate example_FindRange (\<lambda>p. p) ''/ws/prelift_traces'' [''-d''] Map.empty = None
   \<and> rehydrate example_FindRange (\<lambda>p. p) ''/ws/prelift_traces''
        [''0x400000-0x400fff'', '' -x''] Map.empty = None"
  by (simp add: extract_hex_def substr_to_dash_def page_name_def is_space_def hex_value_def
      hex_digit_def example_FindRange_def)

section \<open>Properties of the file status and directory entry handlers\<close>

text \<open>
  What \<^verbatim>\<open>handle__fstat64\<close> does when the host call succeeds: the ten fields are in the
  cache in the order device, inode, mode, link count, uid, gid, rdev, size, block size,
  block count; the result is 0 and \<^verbatim>\<open>errno\<close> is 0.
\<close>

lemma fstat64_success:
  "handle__fstat64 (\<lambda>fd. Some info) (ConstantExpr fd w1) (ConstantExpr p w2) h =
     Some (h\<lparr>local := Some (ConstantExpr 0 64), errno := 0,
            fstat_vector := [st_dev info, st_ino info, ucast (st_mode info), st_nlink info,
              ucast (st_uid info), ucast (st_gid info), st_rdev info,
              st_size info, st_blksize info, st_blocks info]\<rparr>)"
  by (simp add: handle__fstat64_def set_up_fstat_struct_def bindLocal_def create_def)

text \<open>What both handlers do when the host call fails: the result is \<open>-1\<close> in 32 bits, and \<^verbatim>\<open>errno\<close> is \<^verbatim>\<open>EFAULT\<close>.\<close>

lemma stat_calls_failure:
  "handle__fstat64 (\<lambda>fd. None) (ConstantExpr fd w1) (ConstantExpr p w2) h =
     Some (h\<lparr>local := Some (ConstantExpr 0xFFFFFFFF 32), errno := EFAULT\<rparr>)"
  "handle__stat64 (\<lambda>path. None) (ConstantExpr q w1) (ConstantExpr p w2) h =
     Some (h\<lparr>local := Some (ConstantExpr 0xFFFFFFFF 32), errno := EFAULT\<rparr>)"
  by (simp_all add: handle__fstat64_def handle__stat64_def bindLocal_def create_def
      mask_eq_exp_minus_1)

text \<open>
  C5, at the input where the code departs from it. A successful \<^verbatim>\<open>handle__stat64\<close> binds
  0 and sets \<^verbatim>\<open>errno\<close> to 0, and does not call \<^verbatim>\<open>set_up_fstat_struct\<close>: after an
  earlier \<^verbatim>\<open>fstat\<close> of a file with the fields 1 to 10, a \<^verbatim>\<open>stat\<close> of a file with the fields
  11 to 20 leaves 1 to 10 in the cache, and the getter at index 0 returns 1, not 11; on a
  handler that has served no \<^verbatim>\<open>fstat\<close> the cache stays empty and the getter reads past its
  end.
\<close>

theorem stat64_leaves_cache_stale:
  "map_option fstat_vector
     (Option.bind
        (handle__fstat64 (\<lambda>fd. Some example_stat) (create 3 64) (create 0x7000 64)
           fresh_handler)
        (handle__stat64 (\<lambda>path. Some other_stat) (create 0x6000 64) (create 0x7000 64)))
     = Some [1, 2, 3, 4, 5, 6, 7, 8, 9, 10]
   \<and> map_option (\<lambda>h. (local h, errno h))
     (Option.bind
        (Option.bind
           (handle__fstat64 (\<lambda>fd. Some example_stat) (create 3 64) (create 0x7000 64)
              fresh_handler)
           (handle__stat64 (\<lambda>path. Some other_stat) (create 0x6000 64) (create 0x7000 64)))
        (handle_get_fstat_index (create 0 64)))
     = Some (Some (ConstantExpr 1 64), 0)
   \<and> map_option (\<lambda>h. (local h, errno h, fstat_vector h))
        (handle__stat64 (\<lambda>path. Some other_stat) (create 0x6000 64) (create 0x7000 64)
           fresh_handler)
     = Some (Some (ConstantExpr 0 64), 0, [])
   \<and> Option.bind
        (handle__stat64 (\<lambda>path. Some other_stat) (create 0x6000 64) (create 0x7000 64)
           fresh_handler)
        (handle_get_fstat_index (create 0 64))
     = None"
  by (simp add: handle__fstat64_def handle__stat64_def handle_get_fstat_index_def
      set_up_fstat_struct_def bindLocal_def create_def example_stat_def other_stat_def
      fresh_handler_def)

text \<open>
  The parts of the directory-entry contract the code keeps: at the end of the directory
  \<^verbatim>\<open>my_readdir\<close> returns false, and the getter at index 3 returns the type.
\<close>

lemma my_readdir_end_of_directory:
  "handle__my_readdir (\<lambda>dir. None) (ConstantExpr d w) h = Some (bindLocal (ConstantExpr 0 1) h)"
  by (simp add: handle__my_readdir_def create_def)

lemma get_dirent_index_3:
  "handle_get_dirent_index (ConstantExpr 3 w) h =
     Some (bindLocal (ConstantExpr (ucast (ucast (d_type (dirent_entry h)) :: 32 word)) 64) h)"
  by (simp add: handle_get_dirent_index_def create_def take_bit_word_eq_self)

text \<open>
  C6, at the input where the code departs from it. After a successful \<^verbatim>\<open>my_readdir\<close> of
  an entry with inode 5, offset 6, record length 7 and type 8, which returns true and
  caches the entry, the indexed getter returns the type, 8, for each of the indices 0, 1, 2
  and 3.
\<close>

theorem get_dirent_index_falls_through:
  "map_option (\<lambda>h. (local h, dirent_entry h))
      (handle__my_readdir (\<lambda>dir. Some example_dirent) (create 0x9000 64) fresh_handler)
     = Some (Some (ConstantExpr 1 1), example_dirent)
   \<and> map_option local
        (Option.bind
           (handle__my_readdir (\<lambda>dir. Some example_dirent) (create 0x9000 64) fresh_handler)
           (handle_get_dirent_index (create 0 64)))
     = Some (Some (ConstantExpr 8 64))
   \<and> map_option local
        (Option.bind
           (handle__my_readdir (\<lambda>dir. Some example_dirent) (create 0x9000 64) fresh_handler)
           (handle_get_dirent_index (create 1 64)))
     = Some (Some (ConstantExpr 8 64))
   \<and> map_option local
        (Option.bind
           (handle__my_readdir (\<lambda>dir. Some example_dirent) (create 0x9000 64) fresh_handler)
           (handle_get_dirent_index (create 2 64)))
     = Some (Some (ConstantExpr 8 64))
   \<and> map_option local
        (Option.bind
           (handle__my_readdir (\<lambda>dir. Some example_dirent) (create 0x9000 64) fresh_handler)
           (handle_get_dirent_index (create 3 64)))
     = Some (Some (ConstantExpr 8 64))"
  by (simp add: handle__my_readdir_def handle_get_dirent_index_def set_up_dirent_struct_def
      bindLocal_def create_def example_dirent_def fresh_handler_def)

section \<open>Properties of the memory bridge\<close>

text \<open>
  The 32-bit read at an address with an overlay object whose name is that of the one
  tracked symbolic: it returns what the object state of that symbolic reads.
\<close>

lemma read_32_overlay_of_tracked_symbol:
  "objects (Memory st mem_uint) addr_uint = Some symbol \<Longrightarrow>
   symbolics st = [mo] \<Longrightarrow> name mo = symbol \<Longrightarrow>
   handle__remill_read_32 ops (ConstantExpr mem_uint w1) (ConstantExpr addr_uint w2) st
     = Some (bindLocal (addressSpace st (ident mo)) st)"
  by (simp add: handle__remill_read_32_def read_overlay_def)

text \<open>
  C1, at the input where the code departs from it. A symbolic 32-bit value is written to
  \<open>0x1000\<close>, which puts an overlay object there. The 32-bit read at \<open>0x1000\<close> then returns
  that expression; the 64-bit, 16-bit and 8-bit reads at \<open>0x1000\<close> return constants taken
  from the concrete store, which the symbolic write never touched.
\<close>

theorem wide_reads_ignore_overlay:
  "map_option local
     (Option.bind
        (handle__remill_write_32 cell_ops (createPointer 1) (createPointer 0x1000) sym_x
           example_state)
        (handle__remill_read_32 cell_ops (createPointer 1) (createPointer 0x1000)))
     = Some (Some sym_x)
   \<and> map_option local
     (Option.bind
        (handle__remill_write_32 cell_ops (createPointer 1) (createPointer 0x1000) sym_x
           example_state)
        (handle__remill_read_64 cell_ops (createPointer 1) (createPointer 0x1000)))
     = Some (Some (ConstantExpr 0x1122334455667788 64))
   \<and> map_option local
     (Option.bind
        (handle__remill_write_32 cell_ops (createPointer 1) (createPointer 0x1000) sym_x
           example_state)
        (handle__remill_read_16 cell_ops (createPointer 1) (createPointer 0x1000)))
     = Some (Some (ConstantExpr 0x7788 16))
   \<and> map_option local
     (Option.bind
        (handle__remill_write_32 cell_ops (createPointer 1) (createPointer 0x1000) sym_x
           example_state)
        (handle__remill_read_8 cell_ops (createPointer 1) (createPointer 0x1000)))
     = Some (Some (ConstantExpr 0x88 8))"
  by (simp add: handle__remill_write_32_def handle__remill_read_32_def
      handle__remill_read_64_def handle__remill_read_16_def handle__remill_read_8_def
      write_overlay_def read_overlay_def bindLocal_def create_def createPointer_def
      cell_ops_def example_state_def sym_x_def)

text \<open>
  The result of a write of a constant, for any address space: the 8-bit, 16-bit and 64-bit
  handlers leave the handle bound when \<^verbatim>\<open>TryWrite\<close> succeeds and the null pointer when it
  fails; the 32-bit handler leaves the null pointer bound in both cases.
\<close>

lemma write_8_16_64_results:
  "map_option local
     (handle__remill_write_8 ops (ConstantExpr m w1) (ConstantExpr a w2) (ConstantExpr v w3) st)
     = Some (Some (case TryWrite8 ops (store (Memory st m)) a (ucast v) of
                     Some s \<Rightarrow> ConstantExpr m w1 | None \<Rightarrow> createPointer 0))"
  "map_option local
     (handle__remill_write_16 ops (ConstantExpr m w1) (ConstantExpr a w2) (ConstantExpr v w3) st)
     = Some (Some (case TryWrite16 ops (store (Memory st m)) a (ucast v) of
                     Some s \<Rightarrow> ConstantExpr m w1 | None \<Rightarrow> createPointer 0))"
  "map_option local
     (handle__remill_write_64 ops (ConstantExpr m w1) (ConstantExpr a w2) (ConstantExpr v w3) st)
     = Some (Some (case TryWrite64 ops (store (Memory st m)) a v of
                     Some s \<Rightarrow> ConstantExpr m w1 | None \<Rightarrow> createPointer 0))"
  by (simp_all add: handle__remill_write_8_def handle__remill_write_16_def
      handle__remill_write_64_def bindLocal_def set_store_def split: option.splits)

lemma write_32_result:
  "map_option local
     (handle__remill_write_32 ops (ConstantExpr m w1) (ConstantExpr a w2) (ConstantExpr v w3) st)
     = Some (Some (createPointer 0))"
  by (simp add: handle__remill_write_32_def bindLocal_def split: option.splits)

text \<open>
  C2, at the input where the code departs from it. A 32-bit write of the constant 5 to
  the writable address \<open>0x1000\<close> succeeds, the store holds 5 there afterwards, and the
  result the handler leaves bound is the null pointer; the 64-bit write of the same value
  to the same address leaves the address-space handle bound.
\<close>

theorem write_32_binds_null_after_success:
  "map_option (\<lambda>st. (local st, TryRead32 cell_ops (store (Memory st 1)) 0x1000))
     (handle__remill_write_32 cell_ops (createPointer 1) (createPointer 0x1000) (create 5 32)
        example_state)
     = Some (Some (ConstantExpr 0 64), Some 5)
   \<and> map_option (\<lambda>st. (local st, TryRead64 cell_ops (store (Memory st 1)) 0x1000))
     (handle__remill_write_64 cell_ops (createPointer 1) (createPointer 0x1000) (create 5 64)
        example_state)
     = Some (Some (createPointer 1), Some 5)"
  by (simp add: handle__remill_write_32_def handle__remill_write_64_def set_store_def
      bindLocal_def create_def createPointer_def cell_ops_def example_state_def)

text \<open>
  C9, as stated, fails for width 32. The address \<open>0x2000\<close> is unmapped: the concrete read
  fails there, before and after a symbolic 32-bit write to it. The 32-bit read at \<open>0x2000\<close>
  after that write finds the overlay object first and returns the symbolic expression, not
  the all-ones value.
\<close>

theorem read_32_unmapped_overlay_counterexample:
  "TryRead32 cell_ops (store (Memory example_state 1)) 0x2000 = None
   \<and> map_option (\<lambda>st. TryRead32 cell_ops (store (Memory st 1)) 0x2000)
        (handle__remill_write_32 cell_ops (createPointer 1) (createPointer 0x2000) sym_x
           example_state)
      = Some None
   \<and> map_option local
       (Option.bind
          (handle__remill_write_32 cell_ops (createPointer 1) (createPointer 0x2000) sym_x
             example_state)
          (handle__remill_read_32 cell_ops (createPointer 1) (createPointer 0x2000)))
      = Some (Some sym_x)
   \<and> sym_x \<noteq> ConstantExpr (2 ^ 32 - 1) 32"
  by (simp add: handle__remill_write_32_def handle__remill_read_32_def
      write_overlay_def read_overlay_def bindLocal_def create_def createPointer_def
      cell_ops_def example_state_def sym_x_def)

text \<open>The all-ones values the handlers start from, as 64-bit constants of each width.\<close>

lemma all_ones_8: "(- 1 :: 8 word) = 255"
  by simp

lemma all_ones_16: "(- 1 :: 16 word) = 65535"
  by simp

lemma all_ones_32: "(- 1 :: 32 word) = 4294967295"
  by simp

lemma all_ones_ucast:
  "take_bit 8 (ucast (- 1 :: 8 word) :: 64 word) = 2 ^ 8 - 1"
  "take_bit 16 (ucast (- 1 :: 16 word) :: 64 word) = 2 ^ 16 - 1"
  "take_bit 32 (ucast (- 1 :: 32 word) :: 64 word) = 2 ^ 32 - 1"
  "take_bit 64 (- 1 :: 64 word) = 2 ^ 64 - 1"
     apply (simp only: all_ones_8)
     apply simp
    apply (simp only: all_ones_16)
    apply simp
   apply (simp only: all_ones_32)
   apply simp
  apply (simp add: mask_eq_exp_minus_1)
  done

text \<open>
  C9, amended. For every width N among 8, 16, 32 and 64: when no overlay object exists at
  the address, and the concrete read of width N fails there without having stored anything
  in the handler's variable, the handler of width N binds the all-ones value \<open>2 ^ N - 1\<close>
  and returns, the execution state being otherwise as it was.
\<close>

theorem failed_read_binds_all_ones:
  "(objects (Memory st mem_uint) addr_uint = None
      \<and> TryRead8 ops (store (Memory st mem_uint)) addr_uint = None
      \<and> FailedRead8 ops (store (Memory st mem_uint)) addr_uint (NOT 0) = NOT 0 \<longrightarrow>
      handle__remill_read_8 ops (ConstantExpr mem_uint w1) (ConstantExpr addr_uint w2) st
        = Some (bindLocal (ConstantExpr (2 ^ 8 - 1) 8) st))
   \<and> (objects (Memory st mem_uint) addr_uint = None
      \<and> TryRead16 ops (store (Memory st mem_uint)) addr_uint = None
      \<and> FailedRead16 ops (store (Memory st mem_uint)) addr_uint (NOT 0) = NOT 0 \<longrightarrow>
      handle__remill_read_16 ops (ConstantExpr mem_uint w1) (ConstantExpr addr_uint w2) st
        = Some (bindLocal (ConstantExpr (2 ^ 16 - 1) 16) st))
   \<and> (objects (Memory st mem_uint) addr_uint = None
      \<and> TryRead32 ops (store (Memory st mem_uint)) addr_uint = None
      \<and> FailedRead32 ops (store (Memory st mem_uint)) addr_uint (NOT 0) = NOT 0 \<longrightarrow>
      handle__remill_read_32 ops (ConstantExpr mem_uint w1) (ConstantExpr addr_uint w2) st
        = Some (bindLocal (ConstantExpr (2 ^ 32 - 1) 32) st))
   \<and> (objects (Memory st mem_uint) addr_uint = None
      \<and> TryRead64 ops (store (Memory st mem_uint)) addr_uint = None
      \<and> FailedRead64 ops (store (Memory st mem_uint)) addr_uint (NOT 0) = NOT 0 \<longrightarrow>
      handle__remill_read_64 ops (ConstantExpr mem_uint w1) (ConstantExpr addr_uint w2) st
        = Some (bindLocal (ConstantExpr (2 ^ 64 - 1) 64) st))"
  by (simp add: handle__remill_read_8_def handle__remill_read_16_def
      handle__remill_read_32_def handle__remill_read_64_def create_def all_ones_ucast
      mask_eq_exp_minus_1)

theorem failed_read_binds_all_ones_witness:
  "handle__remill_read_8 cell_ops (ConstantExpr 1 64) (ConstantExpr 0x2000 64) example_state
      = Some (bindLocal (ConstantExpr 0xFF 8) example_state)
   \<and> handle__remill_read_16 cell_ops (ConstantExpr 1 64) (ConstantExpr 0x2000 64) example_state
      = Some (bindLocal (ConstantExpr 0xFFFF 16) example_state)
   \<and> handle__remill_read_32 cell_ops (ConstantExpr 1 64) (ConstantExpr 0x2000 64) example_state
      = Some (bindLocal (ConstantExpr 0xFFFFFFFF 32) example_state)
   \<and> handle__remill_read_64 cell_ops (ConstantExpr 1 64) (ConstantExpr 0x2000 64) example_state
      = Some (bindLocal (ConstantExpr 0xFFFFFFFFFFFFFFFF 64) example_state)"
  using failed_read_binds_all_ones [where ops = cell_ops and st = example_state
      and mem_uint = 1 and addr_uint = "0x2000" and ?w1.0 = 64 and ?w2.0 = 64]
  by (simp add: cell_ops_def example_state_def)

end
